theory Spec2Isabelle
  imports Complex_Main
begin

section \<open>JavaScript values used by the front end\<close>

text \<open>
  A JavaScript number that reaches the code is a finite double, an infinity or NaN.  A
  finite number is modelled by the rational value of its shortest decimal literal, the one
  that JSON carries and that number-to-string conversion prints.  Distinct doubles have
  distinct such literals, in the same order, so the comparisons of the source are the
  comparisons of these values.  The model is exact for numbers of up to 15 significant
  decimal digits; the rounding of a longer literal to the nearest double is not modelled.
  A field that is \<open>null\<close> or missing is \<open>None\<close>.  A string is a sequence of code units
  below 256.
\<close>

datatype jsnum = NaN | PosInf | NegInf | Num rat

text \<open>Truthiness of a number: \<open>0\<close> and NaN are falsy.\<close>

fun truthy_num :: "jsnum \<Rightarrow> bool" where
  "truthy_num NaN = False"
| "truthy_num (Num r) = (r \<noteq> 0)"
| "truthy_num PosInf = True"
| "truthy_num NegInf = True"

text \<open>Truthiness of an optional number field and of an optional string field.\<close>

fun truthy_number :: "rat option \<Rightarrow> bool" where
  "truthy_number None = False"
| "truthy_number (Some r) = (r \<noteq> 0)"

fun truthy_string :: "string option \<Rightarrow> bool" where
  "truthy_string None = False"
| "truthy_string (Some s) = (s \<noteq> [])"

text \<open>\<open>x >= y\<close> for a finite left operand, as in \<open>b.rating >= minRating\<close>.\<close>

fun num_ge :: "rat \<Rightarrow> jsnum \<Rightarrow> bool" where
  "num_ge x NaN = False"
| "num_ge x PosInf = False"
| "num_ge x NegInf = True"
| "num_ge x (Num y) = (y \<le> x)"

subsection \<open>\<open>parseFloat\<close>\<close>

text \<open>
  The built-in \<open>parseFloat\<close>: leading white space is skipped, then the longest prefix that
  is a decimal literal (sign, digits, fraction, exponent, or \<open>Infinity\<close>) is read; NaN
  when there is none.  The value is the exact value of the literal, or an infinity or 0
  when the literal is outside the range of a double.
\<close>

definition is_space :: "char \<Rightarrow> bool" where
  "is_space c = (c \<in> set [CHR '' '', CHR 0x09, CHR 0x0A, CHR 0x0B, CHR 0x0C, CHR 0x0D, CHR 0xA0])"

definition is_digit :: "char \<Rightarrow> bool" where
  "is_digit c = (c \<in> set ''0123456789'')"

definition digit_val :: "char \<Rightarrow> nat" where
  "digit_val c = (of_char c :: nat) - 48"

definition digits_val :: "string \<Rightarrow> nat" where
  "digits_val ds = foldl (\<lambda>acc c. 10 * acc + digit_val c) 0 ds"

fun strip_sign :: "string \<Rightarrow> bool \<times> string" where
  "strip_sign [] = (False, [])"
| "strip_sign (c # cs) =
     (if c = CHR ''-'' then (True, cs)
      else if c = CHR ''+'' then (False, cs)
      else (False, c # cs))"

definition parse_exponent :: "string \<Rightarrow> int" where
  "parse_exponent s =
     (case s of
        [] \<Rightarrow> 0
      | c # cs \<Rightarrow>
          if c = CHR ''e'' \<or> c = CHR ''E'' then
            (let (neg, ds) = strip_sign cs; e = takeWhile is_digit ds
             in if e = [] then 0
                else if neg then - int (digits_val e) else int (digits_val e))
          else 0)"

text \<open>
  The range of a double.  A literal of magnitude \<open>2 ^ 1024 - 2 ^ 970\<close> or more (half way
  from the largest double to \<open>2 ^ 1024\<close>) reads as an infinity, and one of magnitude
  \<open>2 ^ - 1075\<close> or less (half the smallest positive double) reads as 0.
\<close>

definition OVERFLOW_BOUND :: rat where
  "OVERFLOW_BOUND = 179769313486231580793728971405303415079934132710037826936173778980444968292764750946649017977587207096330286416692887910946555547851940402630657488671505820681908902000708383676273854845817711531764475730270069855571366959622842914819860834936475292719074168444365510704342711559699508093042880177904174497792"

definition UNDERFLOW_BOUND :: rat where
  "UNDERFLOW_BOUND = 1 / 404804506614621236704990693437834614099113299528284236713802716054860679135990693783920767402874248990374155728633623822779617474771586953734026799881477019843034848553132722728933815484186432682479535356945490137124014966849385397236206711298319112681620113024717539104666829230461005064372655017292012526615415482186989568"

definition parseFloat :: "string \<Rightarrow> jsnum" where
  "parseFloat s =
     (let (neg, t) = strip_sign (dropWhile is_space s)
      in if take 8 t = ''Infinity'' then (if neg then NegInf else PosInf)
         else
           (let ip = takeWhile is_digit t;
                r = dropWhile is_digit t;
                dot = (r \<noteq> [] \<and> hd r = CHR ''.'');
                fp = (if dot then takeWhile is_digit (tl r) else []);
                r' = (if dot then dropWhile is_digit (tl r) else r)
            in if ip = [] \<and> fp = [] then NaN
               else
                 (let m = (of_nat (digits_val (ip @ fp)) :: rat) / 10 ^ length fp;
                      e = parse_exponent r';
                      v = (if e < 0 then m / 10 ^ nat (- e) else m * 10 ^ nat e)
                  in if OVERFLOW_BOUND \<le> v then (if neg then NegInf else PosInf)
                     else if v \<le> UNDERFLOW_BOUND then Num 0
                     else Num (if neg then - v else v))))"

section \<open>Data model\<close>

text \<open>One row of a search result, as the API returns it.\<close>

record business =
  id_field :: int
  name :: "string option"
  website :: "string option"
  phone :: "string option"
  address :: "string option"
  rating :: "rat option"
  review_count :: "rat option"
  lead_score :: "rat option"

record search_result =
  search_id :: int
  businesses :: "business list"

text \<open>
  The page state: the three module variables, the values of the two filter controls, and
  what is on the page: whether the results area (statistics bar, filters and table), the
  empty-state panel and the error panel are displayed, the rows of the table, the
  pagination controls with the totals their click handlers captured, and the three
  statistics.
\<close>

record state =
  currentSearchId :: "int option"
  currentBusinesses :: "business list"
  currentPage :: int
  websiteFilter :: string
  ratingFilter :: string
  resultsShown :: bool
  emptyShown :: bool
  errorShown :: bool
  resultsBody :: "business list"
  paginationControls :: "(int \<times> int) option"
  statTotal :: int
  statWithWebsite :: int
  statWithoutWebsite :: int

definition PAGE_SIZE :: int where
  "PAGE_SIZE = 10"

section \<open>Filtering\<close>

definition getFilteredBusinesses :: "state \<Rightarrow> business list" where
  "getFilteredBusinesses st =
     (let websiteValue = websiteFilter st;
          minRating = (if ratingFilter st \<noteq> [] then Some (parseFloat (ratingFilter st)) else None);
          filtered = currentBusinesses st;
          filtered = (if websiteValue = ''true'' then filter (\<lambda>b. truthy_string (website b)) filtered
                      else if websiteValue = ''false'' then filter (\<lambda>b. \<not> truthy_string (website b)) filtered
                      else filtered);
          filtered = (case minRating of
                        None \<Rightarrow> filtered
                      | Some m \<Rightarrow>
                          if truthy_num m
                          then filter (\<lambda>b. truthy_number (rating b) \<and> num_ge (the (rating b)) m) filtered
                          else filtered)
      in filtered)"

section \<open>Rendering a page\<close>

text \<open>\<open>Array.prototype.slice(start, end)\<close>: a negative index counts from the end, and
  both indices are clamped to the array.\<close>

definition slice :: "'a list \<Rightarrow> int \<Rightarrow> int \<Rightarrow> 'a list" where
  "slice xs start end =
     (let len = int (length xs);
          k = (if start < 0 then max (len + start) 0 else min start len);
          final = (if end < 0 then max (len + end) 0 else min end len)
      in take (nat (final - k)) (drop (nat k) xs))"

text \<open>The table body: one row per business, in order (the HTML of a row is not modelled).\<close>

definition renderTable :: "business list \<Rightarrow> state \<Rightarrow> state" where
  "renderTable bs st = st\<lparr>resultsBody := bs\<rparr>"

text \<open>Existing controls are removed; new ones are inserted only when there is more than
  one page.  The controls keep \<open>totalItems\<close> and \<open>totalPages\<close> of this render.\<close>

definition renderPaginationControls :: "int \<Rightarrow> int \<Rightarrow> state \<Rightarrow> state" where
  "renderPaginationControls totalItems totalPages st =
     (if totalPages \<le> 1 then st\<lparr>paginationControls := None\<rparr>
      else st\<lparr>paginationControls := Some (totalItems, totalPages)\<rparr>)"

text \<open>The three local constants of \<open>renderPage\<close>.\<close>

definition totalPages_of :: "business list \<Rightarrow> int" where
  "totalPages_of bs = \<lceil>(of_nat (length bs) :: rat) / of_int PAGE_SIZE\<rceil>"

definition start_of :: "int \<Rightarrow> int" where
  "start_of page = page * PAGE_SIZE"

definition pageData_of :: "int \<Rightarrow> business list \<Rightarrow> business list" where
  "pageData_of page bs = slice bs (start_of page) (start_of page + PAGE_SIZE)"

definition renderPage :: "business list \<Rightarrow> state \<Rightarrow> state" where
  "renderPage bs st =
     (let totalPages = totalPages_of bs;
          pageData = pageData_of (currentPage st) bs
      in renderPaginationControls (int (length bs)) totalPages (renderTable pageData st))"

definition applyFilters :: "state \<Rightarrow> state" where
  "applyFilters st = renderPage (getFilteredBusinesses st) st"

definition handleFilterChange :: "state \<Rightarrow> state" where
  "handleFilterChange st = applyFilters (st\<lparr>currentPage := 0\<rparr>)"

text \<open>The user picks a value in one of the two filter controls: the browser stores the
  value in the control and then runs the \<open>change\<close> listener.\<close>

definition change_websiteFilter :: "string \<Rightarrow> state \<Rightarrow> state" where
  "change_websiteFilter v st = handleFilterChange (st\<lparr>websiteFilter := v\<rparr>)"

definition change_ratingFilter :: "string \<Rightarrow> state \<Rightarrow> state" where
  "change_ratingFilter v st = handleFilterChange (st\<lparr>ratingFilter := v\<rparr>)"

text \<open>The click listeners of the two pagination buttons; \<open>totalPages\<close> is the value the
  listener captured when the controls were rendered.\<close>

definition prevBtn_click :: "state \<Rightarrow> state" where
  "prevBtn_click st =
     (if currentPage st > 0 then applyFilters (st\<lparr>currentPage := currentPage st - 1\<rparr>) else st)"

definition nextBtn_click :: "int \<Rightarrow> state \<Rightarrow> state" where
  "nextBtn_click totalPages st =
     (if currentPage st < totalPages - 1
      then applyFilters (st\<lparr>currentPage := currentPage st + 1\<rparr>) else st)"

section \<open>Search and statistics\<close>

definition showResults :: "business list \<Rightarrow> state \<Rightarrow> state" where
  "showResults bs st =
     (if length bs = 0 then st\<lparr>emptyShown := True, resultsShown := False\<rparr>
      else renderPage bs (st\<lparr>emptyShown := False, resultsShown := True\<rparr>))"

text \<open>The error panel (its title and message are not modelled).\<close>

definition showError :: "state \<Rightarrow> state" where
  "showError st = st\<lparr>errorShown := True, emptyShown := False, resultsShown := False\<rparr>"

definition hideError :: "state \<Rightarrow> state" where
  "hideError st = st\<lparr>errorShown := False\<rparr>"

definition updateStats :: "business list \<Rightarrow> state \<Rightarrow> state" where
  "updateStats bs st =
     (let total = int (length bs);
          withWebsite = int (length (filter (\<lambda>b. truthy_string (website b)) bs));
          withoutWebsite = total - withWebsite
      in st\<lparr>statTotal := total, statWithWebsite := withWebsite,
             statWithoutWebsite := withoutWebsite\<rparr>)"

text \<open>\<open>String.prototype.trim\<close>: white space and line terminators are removed at both
  ends.\<close>

definition trim :: "string \<Rightarrow> string" where
  "trim s = rev (dropWhile is_space (rev (dropWhile is_space s)))"

datatype js_error = Error string | TypeError | SyntaxError

text \<open>
  The submit listener.  Its inputs are the two text inputs of the form and the outcome of
  \<open>api.searchBusinesses\<close> (a thrown error or the result); the loading indicator and
  the usage display are not part of the modelled state.
\<close>

definition handleSearch :: "string \<Rightarrow> string \<Rightarrow> js_error + search_result \<Rightarrow> state \<Rightarrow> state" where
  "handleSearch businessType location' outcome st =
     (let query = trim businessType; location = trim location'
      in if query = [] \<or> location = [] then st
         else
           (case outcome of
              Inl err \<Rightarrow> showError (hideError st)
            | Inr result \<Rightarrow>
                updateStats (businesses result)
                  (showResults (businesses result)
                     ((hideError st)\<lparr>currentSearchId := Some (search_id result),
                         currentBusinesses := businesses result,
                         currentPage := 0\<rparr>))))"

section \<open>CSV export\<close>

text \<open>
  Number-to-string conversion (\<open>Number::toString\<close>), as \<open>Array.prototype.join\<close> and a
  template literal apply it to a number.  The number is \<open>s * 10 ^ (n - k)\<close> for the
  shortest digit string \<open>s\<close>, of length \<open>k\<close>; it is written as an integer when
  \<open>k \<le> n \<le> 21\<close>, with a decimal point when \<open>0 < n \<le> 21\<close> or \<open>-6 < n \<le> 0\<close>, and in
  exponent notation otherwise.  \<open>scale_decimal\<close> finds the number of decimal places; a
  double has at most 340 of them, and the search stops after 400.
\<close>

definition digit_char :: "int \<Rightarrow> char" where
  "digit_char d = ''0123456789'' ! nat (d mod 10)"

function decimal_digits :: "int \<Rightarrow> string" where
  "decimal_digits n =
     (if n < 10 then [digit_char n] else decimal_digits (n div 10) @ [digit_char (n mod 10)])"
  by pat_completeness auto
termination
  by (relation "measure nat") auto

declare decimal_digits.simps [simp del]

fun scale_decimal :: "nat \<Rightarrow> int \<Rightarrow> int \<Rightarrow> int \<Rightarrow> int \<times> int" where
  "scale_decimal fuel a d m =
     (if fuel = 0 \<or> a mod d = 0 then (a div d, m)
      else scale_decimal (fuel - 1) (a * 10) d (m + 1))"

declare scale_decimal.simps [simp del]

definition format_digits :: "string \<Rightarrow> int \<Rightarrow> string" where
  "format_digits s n =
     (let k = int (length s)
      in if k \<le> n \<and> n \<le> 21 then s @ replicate (nat (n - k)) CHR ''0''
         else if 0 < n \<and> n \<le> 21 then take (nat n) s @ ''.'' @ drop (nat n) s
         else if - 6 < n \<and> n \<le> 0 then ''0.'' @ replicate (nat (- n)) CHR ''0'' @ s
         else
           (let e = (if 0 < n - 1 then ''+'' else ''-'') @ decimal_digits \<bar>n - 1\<bar>
            in if k = 1 then s @ ''e'' @ e
               else take 1 s @ ''.'' @ drop 1 s @ ''e'' @ e))"

definition numToString :: "rat \<Rightarrow> string" where
  "numToString r =
     (let (p, q) = quotient_of r;
          (S, m) = scale_decimal 400 \<bar>p\<bar> q 0;
          ds = decimal_digits S;
          z = length (takeWhile (\<lambda>c. c = CHR ''0'') (rev ds));
          s = take (length ds - z) ds
      in if S = 0 then ''0''
         else (if p < 0 then ''-'' else []) @ format_digits s (int (length s) + int z - m))"

text \<open>\<open>Array.prototype.join\<close> on strings.\<close>

fun join :: "string \<Rightarrow> string list \<Rightarrow> string" where
  "join sep [] = []"
| "join sep [x] = x"
| "join sep (x # y # ys) = x @ sep @ join sep (y # ys)"

text \<open>\<open>.replace(/"/g, '""')\<close>: every double quote is doubled.\<close>

definition replace_quotes :: "string \<Rightarrow> string" where
  "replace_quotes s = concat (map (\<lambda>c. if c = CHR 0x22 then [CHR 0x22, CHR 0x22] else [c]) s)"

text \<open>A text cell: the field, or the empty string when it is falsy, escaped and wrapped in
  double quotes.\<close>

definition text_cell :: "string option \<Rightarrow> string" where
  "text_cell x =
     [CHR 0x22] @ replace_quotes (if truthy_string x then the x else []) @ [CHR 0x22]"

text \<open>The seven cells of a row, as \<open>join\<close> writes them.\<close>

definition csv_row :: "business \<Rightarrow> string list" where
  "csv_row b =
     [text_cell (name b),
      numToString (if truthy_number (lead_score b) then the (lead_score b) else 0),
      (if truthy_number (rating b) then numToString (the (rating b)) else []),
      (if truthy_number (review_count b) then numToString (the (review_count b)) else []),
      text_cell (website b),
      text_cell (phone b),
      text_cell (address b)]"

definition headers :: "string list" where
  "headers = [''Name'', ''Lead Score'', ''Rating'', ''Reviews'', ''Website'', ''Phone'', ''Address'']"

text \<open>The content of the downloaded file; \<open>None\<close> when the function returns before any
  download (the file name, built from the date, is not modelled).\<close>

definition exportCSV :: "state \<Rightarrow> string option" where
  "exportCSV st =
     (if length (currentBusinesses st) = 0 then None
      else
        (let businesses = getFilteredBusinesses st;
             rows = map csv_row businesses;
             csv = join [CHR 0x0A] (join '','' headers # map (join '','') rows)
         in Some csv))"

section \<open>API client\<close>

text \<open>A parsed JSON value; \<open>JNull\<close> is also the \<open>null\<close> a lookup returns.\<close>

datatype json = JNull | JBool bool | JNum rat | JStr string
  | JArr "json list" | JObj "(string \<times> json) list"

text \<open>A response: its status code and its body as \<open>response.json()\<close> parses it
  (\<open>None\<close> when the body is not JSON).  \<open>fetch\<close> either fails or yields a response.\<close>

record response =
  status :: nat
  body :: "json option"

datatype fetch_outcome = NetworkFailure | Response response

definition ok :: "response \<Rightarrow> bool" where
  "ok r = (200 \<le> status r \<and> status r \<le> 299)"

definition response_json :: "response \<Rightarrow> js_error + json" where
  "response_json r = (case body r of None \<Rightarrow> Inl SyntaxError | Some j \<Rightarrow> Inr j)"

definition API_BASE :: string where
  "API_BASE = ''/api''"

definition getCompanyResearch :: "(string \<Rightarrow> fetch_outcome) \<Rightarrow> int \<Rightarrow> js_error + json" where
  "getCompanyResearch fetch businessId =
     (case fetch (API_BASE @ ''/research/'' @ numToString (of_int businessId)) of
        NetworkFailure \<Rightarrow> Inl TypeError
      | Response r \<Rightarrow>
          if \<not> ok r then
            (if status r = 404 then Inr JNull else Inl (Error ''Failed to get research''))
          else response_json r)"

definition getSeoAnalysis :: "(string \<Rightarrow> fetch_outcome) \<Rightarrow> int \<Rightarrow> js_error + json" where
  "getSeoAnalysis fetch businessId =
     (case fetch (API_BASE @ ''/seo/'' @ numToString (of_int businessId)) of
        NetworkFailure \<Rightarrow> Inl TypeError
      | Response r \<Rightarrow>
          if \<not> ok r then
            (if status r = 404 then Inr JNull else Inl (Error ''Failed to get SEO analysis''))
          else response_json r)"

definition getSeoIssues :: "(string \<Rightarrow> fetch_outcome) \<Rightarrow> int \<Rightarrow> js_error + json" where
  "getSeoIssues fetch businessId =
     (case fetch (API_BASE @ ''/seo/issues/'' @ numToString (of_int businessId)) of
        NetworkFailure \<Rightarrow> Inl TypeError
      | Response r \<Rightarrow>
          if \<not> ok r then
            (if status r = 404 then Inr JNull else Inl (Error ''Failed to get SEO issues''))
          else response_json r)"

section \<open>Observations used in the properties\<close>

text \<open>The three statistics as the page shows them.\<close>

definition displayedStats :: "state \<Rightarrow> int \<times> int \<times> int" where
  "displayedStats st = (statTotal st, statWithWebsite st, statWithoutWebsite st)"

subsection \<open>Reading a cell back\<close>

text \<open>
  What the export is checked against: a cell is wrapped when it starts and ends with a
  double quote, and a reader of the file undoes the escaping by turning each pair of
  double quotes into one (a lone double quote is an error).
\<close>

definition wrapped_in_quotes :: "string \<Rightarrow> bool" where
  "wrapped_in_quotes c = (2 \<le> length c \<and> hd c = CHR 0x22 \<and> last c = CHR 0x22)"

fun unescape_quotes :: "string \<Rightarrow> string option" where
  "unescape_quotes [] = Some []"
| "unescape_quotes [c] = (if c = CHR 0x22 then None else Some [c])"
| "unescape_quotes (c # d # r) =
     (if c = CHR 0x22
      then (if d = CHR 0x22 then map_option ((#) c) (unescape_quotes r) else None)
      else map_option ((#) c) (unescape_quotes (d # r)))"

definition first_line :: "string \<Rightarrow> string" where
  "first_line s = takeWhile (\<lambda>c. c \<noteq> CHR 0x0A) s"

section \<open>Example inputs\<close>

text \<open>The state when the page has loaded: no search yet, the empty-state panel on
  display, both filter controls on their empty first option.\<close>

definition initial_state :: state where
  "initial_state =
     \<lparr>currentSearchId = None, currentBusinesses = [], currentPage = 0,
      websiteFilter = [], ratingFilter = [], resultsShown = False, emptyShown = True,
      errorShown = False, resultsBody = [],
      paginationControls = None, statTotal = 0, statWithWebsite = 0, statWithoutWebsite = 0\<rparr>"

definition bare_business :: business where
  "bare_business =
     \<lparr>id_field = 1, name = Some ''Acme'', website = None, phone = None, address = None,
      rating = None, review_count = None, lead_score = None\<rparr>"

definition full_business :: business where
  "full_business =
     \<lparr>id_field = 2, name = Some (''He said '' @ [CHR 0x22] @ ''hi'' @ [CHR 0x22]),
      website = Some ''http://b.example'', phone = Some ''555-0100'',
      address = Some ''1 Main St'', rating = Some (9 / 2), review_count = Some 120,
      lead_score = Some 70\<rparr>"

definition zero_rated_business :: business where
  "zero_rated_business = full_business\<lparr>id_field := 3, rating := Some 0\<rparr>"

definition three_businesses :: "business list" where
  "three_businesses = [bare_business, full_business, zero_rated_business]"

text \<open>Twenty-five businesses with the identifiers 0 to 24.\<close>

definition many_businesses :: "business list" where
  "many_businesses = map (\<lambda>i. full_business\<lparr>id_field := int i\<rparr>) [0..<25]"

definition searched_state :: "business list \<Rightarrow> state" where
  "searched_state bs =
     handleSearch ''coffee shop'' ''Seattle'' (Inr \<lparr>search_id = 7, businesses = bs\<rparr>) initial_state"

definition respond :: "nat \<Rightarrow> json option \<Rightarrow> string \<Rightarrow> fetch_outcome" where
  "respond code b url = Response \<lparr>status = code, body = b\<rparr>"

section \<open>The filtered view\<close>

lemma range_bounds:
  "OVERFLOW_BOUND = 2 ^ 1024 - 2 ^ 970"
  "UNDERFLOW_BOUND = 1 / 2 ^ 1075"
  by (simp_all add: OVERFLOW_BOUND_def UNDERFLOW_BOUND_def)

lemma parseFloat_examples:
  "parseFloat ''0'' = Num 0"
  "parseFloat ''4.5'' = Num (9 / 2)"
  "parseFloat '' -.5e1x'' = Num (- 5)"
  "parseFloat ''5.e-1'' = Num (1 / 2)"
  "parseFloat [] = NaN"
  "parseFloat ''.'' = NaN"
  "parseFloat ''abc'' = NaN"
  "parseFloat ''-Infinity'' = NegInf"
  "parseFloat ''1e400'' = PosInf"
  "parseFloat ''1e-400'' = Num 0"
  by code_simp+

lemma filtered_rating_active:
  assumes "ratingFilter st \<noteq> []" and "truthy_num (parseFloat (ratingFilter st))"
    and "b \<in> set (getFilteredBusinesses st)"
  shows "truthy_number (rating b) \<and> num_ge (the (rating b)) (parseFloat (ratingFilter st))"
  using assms by (auto simp: getFilteredBusinesses_def Let_def split: if_splits)

lemma filtered_subset: "set (getFilteredBusinesses st) \<subseteq> set (currentBusinesses st)"
  by (auto simp: getFilteredBusinesses_def Let_def split: option.splits if_splits)

lemma filtered_of_empty: "currentBusinesses st = [] \<Longrightarrow> getFilteredBusinesses st = []"
  using filtered_subset[of st] by simp

text \<open>
  Claim C1, as stated, fails: with the rating control set to \<open>0\<close> the parsed threshold is
  falsy, the rating filter is skipped, and a business without rating stays in the view.
\<close>

theorem C1_threshold_zero_keeps_unrated:
  "getFilteredBusinesses (change_ratingFilter ''0'' (searched_state three_businesses))
     = [bare_business, full_business, zero_rated_business]
   \<and> rating bare_business = None"
  by code_simp

text \<open>
  Claim C1, amended: whenever the rating control holds a value that parses to a truthy
  number (any threshold other than 0, in particular every positive one), no business of
  the filtered view has an absent rating.
\<close>

theorem C1_unrated_excluded:
  assumes "ratingFilter st \<noteq> []" and "truthy_num (parseFloat (ratingFilter st))"
  shows "\<forall>b \<in> set (getFilteredBusinesses st). rating b \<noteq> None"
proof
  fix b assume "b \<in> set (getFilteredBusinesses st)"
  from filtered_rating_active[OF assms this] have "truthy_number (rating b)" ..
  then show "rating b \<noteq> None" by (cases "rating b") auto
qed

theorem C1_unrated_excluded_witness:
  "ratingFilter (change_ratingFilter ''4'' (searched_state three_businesses)) \<noteq> []
   \<and> truthy_num (parseFloat (ratingFilter (change_ratingFilter ''4'' (searched_state three_businesses))))
   \<and> bare_business \<in> set (currentBusinesses (change_ratingFilter ''4'' (searched_state three_businesses)))
   \<and> rating bare_business = None
   \<and> bare_business \<notin> set (getFilteredBusinesses (change_ratingFilter ''4'' (searched_state three_businesses)))"
proof -
  let ?st = "change_ratingFilter ''4'' (searched_state three_businesses)"
  have h1: "ratingFilter ?st \<noteq> []" by code_simp
  have h2: "truthy_num (parseFloat (ratingFilter ?st))" by code_simp
  have h3: "bare_business \<in> set (currentBusinesses ?st)" by code_simp
  have h4: "rating bare_business = None" by code_simp
  from C1_unrated_excluded[OF h1 h2] h4
  have "bare_business \<notin> set (getFilteredBusinesses ?st)" by blast
  with h1 h2 h3 h4 show ?thesis by blast
qed

text \<open>
  Claim C9: under a positive minimum-rating threshold, no business of the filtered view
  has the rating 0 (a rating of 0 is falsy, so the predicate rejects it before comparing).
\<close>

theorem C9_zero_rating_excluded:
  assumes "ratingFilter st \<noteq> []" and "parseFloat (ratingFilter st) = Num r" and "0 < r"
  shows "\<forall>b \<in> set (getFilteredBusinesses st). rating b \<noteq> Some 0"
proof
  fix b assume b: "b \<in> set (getFilteredBusinesses st)"
  from assms have "truthy_num (parseFloat (ratingFilter st))" by simp
  from filtered_rating_active[OF assms(1) this b] have "truthy_number (rating b)" ..
  then show "rating b \<noteq> Some 0" by auto
qed

theorem C9_zero_rating_excluded_witness:
  "ratingFilter (change_ratingFilter ''0.5'' (searched_state three_businesses)) \<noteq> []
   \<and> parseFloat (ratingFilter (change_ratingFilter ''0.5'' (searched_state three_businesses))) = Num (1 / 2)
   \<and> (0::rat) < 1 / 2
   \<and> rating zero_rated_business = Some 0
   \<and> zero_rated_business \<in> set (currentBusinesses (change_ratingFilter ''0.5'' (searched_state three_businesses)))
   \<and> zero_rated_business \<notin> set (getFilteredBusinesses (change_ratingFilter ''0.5'' (searched_state three_businesses)))"
proof -
  let ?st = "change_ratingFilter ''0.5'' (searched_state three_businesses)"
  have h1: "ratingFilter ?st \<noteq> []" by code_simp
  have h2: "parseFloat (ratingFilter ?st) = Num (1 / 2)" by code_simp
  have h3: "(0::rat) < 1 / 2" by simp
  have h4: "rating zero_rated_business = Some 0" by code_simp
  have h5: "zero_rated_business \<in> set (currentBusinesses ?st)" by code_simp
  from C9_zero_rating_excluded[OF h1 h2 h3] h4
  have "zero_rated_business \<notin> set (getFilteredBusinesses ?st)" by blast
  with h1 h2 h3 h4 h5 show ?thesis by blast
qed

section \<open>Filter changes and page navigation\<close>

lemma renderPage_frame:
  "currentPage (renderPage bs st) = currentPage st"
  "currentBusinesses (renderPage bs st) = currentBusinesses st"
  "currentSearchId (renderPage bs st) = currentSearchId st"
  "websiteFilter (renderPage bs st) = websiteFilter st"
  "ratingFilter (renderPage bs st) = ratingFilter st"
  "statTotal (renderPage bs st) = statTotal st"
  "statWithWebsite (renderPage bs st) = statWithWebsite st"
  "statWithoutWebsite (renderPage bs st) = statWithoutWebsite st"
  by (simp_all add: renderPage_def renderPaginationControls_def renderTable_def Let_def)

lemma applyFilters_frame:
  "currentPage (applyFilters st) = currentPage st"
  "currentBusinesses (applyFilters st) = currentBusinesses st"
  "currentSearchId (applyFilters st) = currentSearchId st"
  "websiteFilter (applyFilters st) = websiteFilter st"
  "ratingFilter (applyFilters st) = ratingFilter st"
  "statTotal (applyFilters st) = statTotal st"
  "statWithWebsite (applyFilters st) = statWithWebsite st"
  "statWithoutWebsite (applyFilters st) = statWithoutWebsite st"
  by (simp_all add: applyFilters_def renderPage_frame)

text \<open>After a filter change or a page click the pagination controls hold the totals of
  the current filtered view.\<close>

lemma applyFilters_controls:
  "paginationControls (applyFilters st) =
     (if totalPages_of (getFilteredBusinesses st) \<le> 1 then None
      else Some (int (length (getFilteredBusinesses st)),
                 totalPages_of (getFilteredBusinesses st)))"
  by (simp add: applyFilters_def renderPage_def renderPaginationControls_def renderTable_def
      Let_def getFilteredBusinesses_def)

text \<open>
  Claim C7: a filter change sets the page index to 0 and leaves the stored business list
  and search identifier as they were, whichever control changed and whatever its new value.
\<close>

theorem C7_filter_change_resets_page:
  "currentPage (handleFilterChange st) = 0
   \<and> currentBusinesses (handleFilterChange st) = currentBusinesses st
   \<and> currentSearchId (handleFilterChange st) = currentSearchId st
   \<and> currentPage (change_websiteFilter w st) = 0
   \<and> currentBusinesses (change_websiteFilter w st) = currentBusinesses st
   \<and> currentSearchId (change_websiteFilter w st) = currentSearchId st
   \<and> websiteFilter (change_websiteFilter w st) = w
   \<and> currentPage (change_ratingFilter r st) = 0
   \<and> currentBusinesses (change_ratingFilter r st) = currentBusinesses st
   \<and> currentSearchId (change_ratingFilter r st) = currentSearchId st
   \<and> ratingFilter (change_ratingFilter r st) = r"
  by (simp add: handleFilterChange_def change_websiteFilter_def change_ratingFilter_def
      applyFilters_frame)

theorem C7_filter_change_resets_page_witness:
  "currentPage (nextBtn_click 3 (nextBtn_click 3 (searched_state many_businesses))) = 2
   \<and> currentPage (change_websiteFilter ''true''
         (nextBtn_click 3 (nextBtn_click 3 (searched_state many_businesses)))) = 0
   \<and> currentBusinesses (change_websiteFilter ''true''
         (nextBtn_click 3 (nextBtn_click 3 (searched_state many_businesses)))) = many_businesses
   \<and> currentSearchId (change_websiteFilter ''true''
         (nextBtn_click 3 (nextBtn_click 3 (searched_state many_businesses)))) = Some 7"
proof -
  let ?st = "nextBtn_click 3 (nextBtn_click 3 (searched_state many_businesses))"
  have p: "currentPage ?st = 2" by code_simp
  have b: "currentBusinesses ?st = many_businesses" by code_simp
  have i: "currentSearchId ?st = Some 7" by code_simp
  from C7_filter_change_resets_page[of ?st "''true''"] p b i show ?thesis by simp
qed

text \<open>
  Claim C6: with \<open>totalPages\<close> computed from the current filtered view, a click on Next
  adds 1 to the page index when the index is below \<open>totalPages - 1\<close> and otherwise
  leaves the whole state as it is; a click on Previous subtracts 1 when the index is above
  0 and otherwise leaves the whole state as it is.  Both listeners always return a state.
\<close>

theorem C6_next_prev:
  assumes "totalPages = totalPages_of (getFilteredBusinesses st)"
  shows "(currentPage st < totalPages - 1 \<longrightarrow>
            currentPage (nextBtn_click totalPages st) = currentPage st + 1)
       \<and> (totalPages - 1 \<le> currentPage st \<longrightarrow> nextBtn_click totalPages st = st)
       \<and> (0 < currentPage st \<longrightarrow> currentPage (prevBtn_click st) = currentPage st - 1)
       \<and> (currentPage st = 0 \<longrightarrow> prevBtn_click st = st)"
  by (simp add: nextBtn_click_def prevBtn_click_def applyFilters_frame)

theorem C6_next_prev_witness:
  "totalPages_of (getFilteredBusinesses (searched_state many_businesses)) = 3
   \<and> currentPage (searched_state many_businesses) = 0
   \<and> currentPage (nextBtn_click 3 (searched_state many_businesses)) = 1
   \<and> prevBtn_click (searched_state many_businesses) = searched_state many_businesses
   \<and> currentPage (nextBtn_click 3 (nextBtn_click 3 (searched_state many_businesses))) = 2
   \<and> nextBtn_click 3 (nextBtn_click 3 (nextBtn_click 3 (searched_state many_businesses)))
       = nextBtn_click 3 (nextBtn_click 3 (searched_state many_businesses))
   \<and> currentPage (prevBtn_click (nextBtn_click 3 (nextBtn_click 3 (searched_state many_businesses)))) = 1"
proof -
  let ?s0 = "searched_state many_businesses"
  let ?s1 = "nextBtn_click 3 ?s0"
  let ?s2 = "nextBtn_click 3 ?s1"
  have p0: "currentPage ?s0 = 0" by code_simp
  have t0: "3 = totalPages_of (getFilteredBusinesses ?s0)" by code_simp
  have p1: "currentPage ?s1 = 1" using C6_next_prev[OF t0] p0 by simp
  have t1: "3 = totalPages_of (getFilteredBusinesses ?s1)" by code_simp
  have p2: "currentPage ?s2 = 2" using C6_next_prev[OF t1] p1 by simp
  have t2: "3 = totalPages_of (getFilteredBusinesses ?s2)" by code_simp
  have stay: "nextBtn_click 3 ?s2 = ?s2" using C6_next_prev[OF t2] p2 by simp
  have prev2: "currentPage (prevBtn_click ?s2) = 1" using C6_next_prev[OF t2] p2 by simp
  have prev0: "prevBtn_click ?s0 = ?s0" using C6_next_prev[OF t0] p0 by simp
  from p0 t0 p1 p2 stay prev2 prev0 show ?thesis by simp
qed

section \<open>Search and statistics\<close>

lemma showResults_frame:
  "currentPage (showResults bs st) = currentPage st"
  "currentBusinesses (showResults bs st) = currentBusinesses st"
  "currentSearchId (showResults bs st) = currentSearchId st"
  "websiteFilter (showResults bs st) = websiteFilter st"
  "ratingFilter (showResults bs st) = ratingFilter st"
  by (simp_all add: showResults_def renderPage_frame)

lemma updateStats_frame:
  "currentPage (updateStats bs st) = currentPage st"
  "currentBusinesses (updateStats bs st) = currentBusinesses st"
  "currentSearchId (updateStats bs st) = currentSearchId st"
  "websiteFilter (updateStats bs st) = websiteFilter st"
  "ratingFilter (updateStats bs st) = ratingFilter st"
  by (simp_all add: updateStats_def Let_def)

lemma handleSearch_success:
  assumes "trim q \<noteq> []" and "trim l \<noteq> []"
  shows "handleSearch q l (Inr result) st =
           updateStats (businesses result)
             (showResults (businesses result)
                ((hideError st)\<lparr>currentSearchId := Some (search_id result),
                    currentBusinesses := businesses result, currentPage := 0\<rparr>))"
  using assms by (simp add: handleSearch_def Let_def)

text \<open>
  Claim C4, as stated, fails: a successful search leaves the two filter controls as they
  were.  Here the website control holds \<open>true\<close> and the rating control \<open>4\<close> before the
  search; both hold the same values afterwards, and the filtered view of the new result
  is still narrowed by them.
\<close>

theorem C4_search_keeps_filter:
  "websiteFilter
     (handleSearch ''coffee shop'' ''Seattle'' (Inr \<lparr>search_id = 8, businesses = three_businesses\<rparr>)
        (change_ratingFilter ''4'' (change_websiteFilter ''true'' (searched_state many_businesses))))
     = ''true''
   \<and> ratingFilter
     (handleSearch ''coffee shop'' ''Seattle'' (Inr \<lparr>search_id = 8, businesses = three_businesses\<rparr>)
        (change_ratingFilter ''4'' (change_websiteFilter ''true'' (searched_state many_businesses))))
     = ''4''
   \<and> getFilteredBusinesses
     (handleSearch ''coffee shop'' ''Seattle'' (Inr \<lparr>search_id = 8, businesses = three_businesses\<rparr>)
        (change_ratingFilter ''4'' (change_websiteFilter ''true'' (searched_state many_businesses))))
     = [full_business]"
  by code_simp

text \<open>
  Claim C4, amended: from every prior state, a successful search (both text inputs
  non-blank, the API call returns a result) replaces the stored search identifier and
  business list with those of the result and sets the page index to 0.
\<close>

theorem C4_search_replaces_result:
  assumes "trim q \<noteq> []" and "trim l \<noteq> []"
  shows "currentSearchId (handleSearch q l (Inr result) st) = Some (search_id result)
       \<and> currentBusinesses (handleSearch q l (Inr result) st) = businesses result
       \<and> currentPage (handleSearch q l (Inr result) st) = 0"
  by (simp add: handleSearch_success[OF assms] updateStats_frame showResults_frame)

theorem C4_search_replaces_result_witness:
  "trim ''coffee shop'' \<noteq> [] \<and> trim ''Seattle'' \<noteq> []
   \<and> currentPage (nextBtn_click 3 (searched_state many_businesses)) = 1
   \<and> currentSearchId
        (handleSearch ''coffee shop'' ''Seattle'' (Inr \<lparr>search_id = 8, businesses = three_businesses\<rparr>)
           (nextBtn_click 3 (searched_state many_businesses))) = Some 8
   \<and> currentBusinesses
        (handleSearch ''coffee shop'' ''Seattle'' (Inr \<lparr>search_id = 8, businesses = three_businesses\<rparr>)
           (nextBtn_click 3 (searched_state many_businesses))) = three_businesses
   \<and> currentPage
        (handleSearch ''coffee shop'' ''Seattle'' (Inr \<lparr>search_id = 8, businesses = three_businesses\<rparr>)
           (nextBtn_click 3 (searched_state many_businesses))) = 0"
proof -
  have h1: "trim ''coffee shop'' \<noteq> []" by code_simp
  have h2: "trim ''Seattle'' \<noteq> []" by code_simp
  have h3: "currentPage (nextBtn_click 3 (searched_state many_businesses)) = 1" by code_simp
  from C4_search_replaces_result[OF h1 h2,
      of "\<lparr>search_id = 8, businesses = three_businesses\<rparr>"
         "nextBtn_click 3 (searched_state many_businesses)"] h1 h2 h3
  show ?thesis by simp
qed

text \<open>
  Claim C5: after a successful search, the three displayed statistics are the length of
  the whole result, the number of its businesses with a website, and their difference,
  and they are the same under any two filter selections made afterwards.
\<close>

theorem C5_stats_ignore_filter:
  assumes "trim q \<noteq> []" and "trim l \<noteq> []"
    and "st' = handleSearch q l (Inr result) st"
    and "sA = change_ratingFilter r1 (change_websiteFilter w1 st')"
    and "sB = change_ratingFilter r2 (change_websiteFilter w2 st')"
  shows "displayedStats sA = displayedStats sB
       \<and> displayedStats sA =
           (int (length (businesses result)),
            int (length (filter (\<lambda>b. truthy_string (website b)) (businesses result))),
            int (length (businesses result))
              - int (length (filter (\<lambda>b. truthy_string (website b)) (businesses result))))"
proof -
  have "displayedStats st' =
           (int (length (businesses result)),
            int (length (filter (\<lambda>b. truthy_string (website b)) (businesses result))),
            int (length (businesses result))
              - int (length (filter (\<lambda>b. truthy_string (website b)) (businesses result))))"
    unfolding assms(3) handleSearch_success[OF assms(1,2)]
    by (simp add: displayedStats_def updateStats_def Let_def)
  moreover have "displayedStats (change_ratingFilter r (change_websiteFilter w s)) = displayedStats s"
    for r w s
    by (simp add: displayedStats_def change_ratingFilter_def change_websiteFilter_def
        handleFilterChange_def applyFilters_frame)
  ultimately show ?thesis by (simp add: assms(4,5))
qed

theorem C5_stats_ignore_filter_witness:
  "trim ''coffee shop'' \<noteq> [] \<and> trim ''Seattle'' \<noteq> []
   \<and> displayedStats (change_ratingFilter ''4'' (change_websiteFilter ''true'' (searched_state three_businesses)))
       = (3, 2, 1)
   \<and> displayedStats (change_ratingFilter '''' (change_websiteFilter ''false'' (searched_state three_businesses)))
       = (3, 2, 1)
   \<and> length (getFilteredBusinesses
        (change_ratingFilter ''4'' (change_websiteFilter ''true'' (searched_state three_businesses)))) = 1"
proof -
  have h1: "trim ''coffee shop'' \<noteq> []" by code_simp
  have h2: "trim ''Seattle'' \<noteq> []" by code_simp
  have h3: "length (getFilteredBusinesses
        (change_ratingFilter ''4'' (change_websiteFilter ''true'' (searched_state three_businesses)))) = 1"
    by code_simp
  have h4: "length three_businesses = 3" by code_simp
  have h5: "length (filter (\<lambda>b. truthy_string (website b)) three_businesses) = 2" by code_simp
  note main = C5_stats_ignore_filter[where result = "\<lparr>search_id = 7, businesses = three_businesses\<rparr>"
        and st = initial_state and ?r1.0 = "''4''" and ?w1.0 = "''true''"
        and ?r2.0 = "[]" and ?w2.0 = "''false''", OF h1 h2 refl refl refl]
  note stats = main[folded searched_state_def]
  from h1 h2 h3 show ?thesis
    by (simp add: conjunct1[OF stats, symmetric] conjunct2[OF stats] h4 h5)
qed

section \<open>The API client\<close>

text \<open>
  Claim C8: each of the three lookups returns \<open>null\<close> when the response has status 404,
  returns what \<open>response.json()\<close> yields (the parsed body) when the status is 2xx, and
  throws an \<open>Error\<close> on every other status.
\<close>

theorem C8_lookup_by_id:
  assumes "fetch (API_BASE @ ''/research/'' @ numToString (of_int i)) = Response r1"
    and "fetch (API_BASE @ ''/seo/'' @ numToString (of_int i)) = Response r2"
    and "fetch (API_BASE @ ''/seo/issues/'' @ numToString (of_int i)) = Response r3"
  shows "(status r1 = 404 \<longrightarrow> getCompanyResearch fetch i = Inr JNull)
       \<and> (ok r1 \<longrightarrow> getCompanyResearch fetch i = response_json r1)
       \<and> (ok r1 \<and> body r1 = Some j1 \<longrightarrow> getCompanyResearch fetch i = Inr j1)
       \<and> (\<not> ok r1 \<and> status r1 \<noteq> 404 \<longrightarrow>
            getCompanyResearch fetch i = Inl (Error ''Failed to get research''))
       \<and> (status r2 = 404 \<longrightarrow> getSeoAnalysis fetch i = Inr JNull)
       \<and> (ok r2 \<longrightarrow> getSeoAnalysis fetch i = response_json r2)
       \<and> (ok r2 \<and> body r2 = Some j2 \<longrightarrow> getSeoAnalysis fetch i = Inr j2)
       \<and> (\<not> ok r2 \<and> status r2 \<noteq> 404 \<longrightarrow>
            getSeoAnalysis fetch i = Inl (Error ''Failed to get SEO analysis''))
       \<and> (status r3 = 404 \<longrightarrow> getSeoIssues fetch i = Inr JNull)
       \<and> (ok r3 \<longrightarrow> getSeoIssues fetch i = response_json r3)
       \<and> (ok r3 \<and> body r3 = Some j3 \<longrightarrow> getSeoIssues fetch i = Inr j3)
       \<and> (\<not> ok r3 \<and> status r3 \<noteq> 404 \<longrightarrow>
            getSeoIssues fetch i = Inl (Error ''Failed to get SEO issues''))"
  using assms
  by (simp add: getCompanyResearch_def getSeoAnalysis_def getSeoIssues_def ok_def
      response_json_def)

theorem C8_lookup_by_id_witness:
  "getCompanyResearch (respond 404 None) 7 = Inr JNull
   \<and> getSeoAnalysis (respond 404 None) 7 = Inr JNull
   \<and> getSeoIssues (respond 404 None) 7 = Inr JNull
   \<and> ok \<lparr>status = 200, body = Some (JObj [(''grade'', JStr ''A'')])\<rparr>
   \<and> getCompanyResearch (respond 200 (Some (JObj [(''grade'', JStr ''A'')]))) 7
        = Inr (JObj [(''grade'', JStr ''A'')])
   \<and> getSeoAnalysis (respond 200 (Some (JObj [(''grade'', JStr ''A'')]))) 7
        = Inr (JObj [(''grade'', JStr ''A'')])
   \<and> getSeoIssues (respond 200 (Some (JObj [(''grade'', JStr ''A'')]))) 7
        = Inr (JObj [(''grade'', JStr ''A'')])
   \<and> \<not> ok \<lparr>status = 500, body = None\<rparr>
   \<and> getCompanyResearch (respond 500 None) 7 = Inl (Error ''Failed to get research'')
   \<and> getSeoAnalysis (respond 500 None) 7 = Inl (Error ''Failed to get SEO analysis'')
   \<and> getSeoIssues (respond 500 None) 7 = Inl (Error ''Failed to get SEO issues'')"
proof -
  let ?j = "JObj [(''grade'', JStr ''A'')]"
  have a: "respond 404 None u = Response \<lparr>status = 404, body = None\<rparr>" for u
    by (simp add: respond_def)
  have b: "respond 200 (Some ?j) u = Response \<lparr>status = 200, body = Some ?j\<rparr>" for u
    by (simp add: respond_def)
  have c: "respond 500 None u = Response \<lparr>status = 500, body = None\<rparr>" for u
    by (simp add: respond_def)
  have okb: "ok \<lparr>status = 200, body = Some ?j\<rparr>" by (simp add: ok_def)
  have bdb: "body \<lparr>status = 200, body = Some ?j\<rparr> = Some ?j" by simp
  have okc: "\<not> ok \<lparr>status = 500, body = None\<rparr>" by (simp add: ok_def)
  from C8_lookup_by_id[where i = 7 and fetch = "respond 404 None", OF a a a]
  have r404: "getCompanyResearch (respond 404 None) 7 = Inr JNull
      \<and> getSeoAnalysis (respond 404 None) 7 = Inr JNull
      \<and> getSeoIssues (respond 404 None) 7 = Inr JNull"
    by simp
  from C8_lookup_by_id[where i = 7 and fetch = "respond 200 (Some ?j)" and ?j1.0 = ?j and ?j2.0 = ?j and ?j3.0 = ?j, OF b b b] okb bdb
  have r200: "getCompanyResearch (respond 200 (Some ?j)) 7 = Inr ?j
      \<and> getSeoAnalysis (respond 200 (Some ?j)) 7 = Inr ?j
      \<and> getSeoIssues (respond 200 (Some ?j)) 7 = Inr ?j"
    by blast
  from C8_lookup_by_id[where i = 7 and fetch = "respond 500 None", OF c c c] okc
  have r500: "getCompanyResearch (respond 500 None) 7 = Inl (Error ''Failed to get research'')
      \<and> getSeoAnalysis (respond 500 None) 7 = Inl (Error ''Failed to get SEO analysis'')
      \<and> getSeoIssues (respond 500 None) 7 = Inl (Error ''Failed to get SEO issues'')"
    by simp
  from r404 r200 r500 okb okc show ?thesis by simp
qed

section \<open>Pagination\<close>









section \<open>The CSV file\<close>

text \<open>The conversion on integers, fractions and both ends of the exponent notation.\<close>

lemma numToString_examples:
  "numToString 0 = ''0''"
  "numToString 70 = ''70''"
  "numToString (9 / 2) = ''4.5''"
  "numToString (- 43 / 10) = ''-4.3''"
  "numToString (- 3 / 100) = ''-0.03''"
  "numToString (1 / 10 ^ 6) = ''0.000001''"
  "numToString (1 / 10 ^ 7) = ''1e-7''"
  "numToString (25 / 10 ^ 8) = ''2.5e-7''"
  "numToString 123456789012345680000 = ''123456789012345680000''"
  "numToString (10 ^ 21) = ''1e+21''"
  "numToString (12 * 10 ^ 21) = ''1.2e+22''"
  by code_simp+

text \<open>What the conversion writes reads back as the same number.\<close>

lemma numToString_reads_back:
  "parseFloat (numToString (9 / 2)) = Num (9 / 2)"
  "parseFloat (numToString (- 3 / 100)) = Num (- 3 / 100)"
  "parseFloat (numToString (25 / 10 ^ 8)) = Num (25 / 10 ^ 8)"
  "parseFloat (numToString (12 * 10 ^ 21)) = Num (12 * 10 ^ 21)"
  by code_simp+

lemma digit_char_range: "digit_char d \<in> set ''0123456789''"
proof -
  have "nat (d mod 10) < length ''0123456789''" by simp
  then show ?thesis unfolding digit_char_def by (rule nth_mem)
qed

lemma digit_char_not_quote: "digit_char d \<noteq> CHR 0x22"
  using digit_char_range[of d] by auto

lemma decimal_digits_no_quote: "CHR 0x22 \<notin> set (decimal_digits n)"
proof (induction n rule: decimal_digits.induct)
  case (1 n)
  show ?case
  proof (cases "n < 10")
    case True
    then show ?thesis
      using digit_char_not_quote[of n] by (subst decimal_digits.simps) auto
  next
    case False
    with 1 show ?thesis
      using digit_char_not_quote[of "n mod 10"] by (subst decimal_digits.simps) auto
  qed
qed

lemma format_digits_no_quote:
  assumes "CHR 0x22 \<notin> set s"
  shows "CHR 0x22 \<notin> set (format_digits s n)"
proof -
  have t: "CHR 0x22 \<notin> set (take i s)" for i
    using assms by (auto dest: in_set_takeD)
  have d: "CHR 0x22 \<notin> set (drop i s)" for i
    using assms by (auto dest: in_set_dropD)
  show ?thesis
    using assms t d decimal_digits_no_quote
    by (auto simp: format_digits_def Let_def)
qed

lemma numToString_no_quote: "CHR 0x22 \<notin> set (numToString r)"
proof -
  have "CHR 0x22 \<notin> set (take i (decimal_digits n))" for i n
    using decimal_digits_no_quote[of n] by (auto dest: in_set_takeD)
  then show ?thesis
    by (auto simp: numToString_def Let_def format_digits_no_quote split: prod.splits)
qed

lemma unescape_plain:
  "c \<noteq> CHR 0x22 \<Longrightarrow> unescape_quotes (c # cs) = map_option ((#) c) (unescape_quotes cs)"
  by (cases cs) simp_all

lemma unescape_replace: "unescape_quotes (replace_quotes s) = Some s"
proof (induction s)
  case Nil
  show ?case by (simp add: replace_quotes_def)
next
  case (Cons c s)
  have step: "replace_quotes (c # s)
      = (if c = CHR 0x22 then [CHR 0x22, CHR 0x22] else [c]) @ replace_quotes s"
    by (simp add: replace_quotes_def)
  show ?case
  proof (cases "c = CHR 0x22")
    case True
    with Cons step show ?thesis by simp
  next
    case False
    with Cons step show ?thesis by (simp add: unescape_plain)
  qed
qed

lemma text_cell_wrapped: "wrapped_in_quotes (text_cell x)"
  by (simp add: text_cell_def wrapped_in_quotes_def)

lemma text_cell_reads_back:
  "text_cell (Some s) = CHR 0x22 # replace_quotes s @ [CHR 0x22]
   \<and> unescape_quotes (replace_quotes s) = Some s"
  by (cases "s = []") (simp_all add: text_cell_def unescape_replace)

lemma text_cell_missing: "text_cell None = [CHR 0x22, CHR 0x22]"
  by (simp add: text_cell_def replace_quotes_def)

lemma join_Cons: "join sep (x # xs) = x @ (if xs = [] then [] else sep @ join sep xs)"
  by (cases xs) simp_all

lemma first_line_join:
  assumes "CHR 0x0A \<notin> set h"
  shows "first_line (join [CHR 0x0A] (h # ls)) = h"
proof -
  from assms have "\<forall>c \<in> set h. c \<noteq> CHR 0x0A" by auto
  then show ?thesis by (simp add: first_line_def join_Cons)
qed

lemma header_line: "join '','' headers = ''Name,Lead Score,Rating,Reviews,Website,Phone,Address''"
  by (simp add: headers_def)

lemma exportCSV_content:
  assumes "getFilteredBusinesses st \<noteq> []"
  shows "exportCSV st =
           Some (join [CHR 0x0A]
                  (''Name,Lead Score,Rating,Reviews,Website,Phone,Address''
                   # map (\<lambda>b. join '','' (csv_row b)) (getFilteredBusinesses st)))"
proof -
  from assms have "currentBusinesses st \<noteq> []"
    using filtered_of_empty by blast
  then show ?thesis
    by (simp add: exportCSV_def Let_def header_line comp_def)
qed

text \<open>
  Claim C3, as stated, fails: the lead score, the rating and the review count are written
  as bare numbers (or as nothing), without quotes.  The file of a two-row result:
\<close>

theorem C3_numeric_cells_bare:
  \<open>exportCSV (searched_state [full_business, bare_business])
     = Some ''Name,Lead Score,Rating,Reviews,Website,Phone,Address\<newline>"He said ""hi""",70,4.5,120,"http://b.example","555-0100","1 Main St"\<newline>"Acme",0,,,"","",""''
   \<and> csv_row bare_business = [''"Acme"'', ''0'', '''', '''', ''""'', ''""'', ''""'']
   \<and> \<not> list_all wrapped_in_quotes (csv_row bare_business)\<close>
  by code_simp

text \<open>
  Claim C3, amended: when the filtered view is not empty, the file starts with the header
  line \<open>Name,Lead Score,Rating,Reviews,Website,Phone,Address\<close>, followed by one line per
  business of the filtered view, in order, each the seven cells joined by commas.  The
  four text cells (name, website, phone, address) are wrapped in double quotes, with every
  double quote of the field doubled, so that the field reads back; a missing website,
  phone or address gives the wrapped empty string.  The lead score, rating and review
  count cells are the number-to-string form of the field, without quotes; a rating or
  review count that is missing or 0 gives the empty cell, and a lead score that is missing
  gives \<open>0\<close>.
\<close>

theorem C3_csv_layout:
  assumes "getFilteredBusinesses st \<noteq> []"
  shows "exportCSV st =
           Some (join [CHR 0x0A]
                  (''Name,Lead Score,Rating,Reviews,Website,Phone,Address''
                   # map (\<lambda>b. join '','' (csv_row b)) (getFilteredBusinesses st)))
       \<and> first_line (the (exportCSV st)) = ''Name,Lead Score,Rating,Reviews,Website,Phone,Address''
       \<and> length (csv_row b) = 7
       \<and> wrapped_in_quotes (csv_row b ! 0) \<and> wrapped_in_quotes (csv_row b ! 4)
       \<and> wrapped_in_quotes (csv_row b ! 5) \<and> wrapped_in_quotes (csv_row b ! 6)
       \<and> (name b = Some s \<longrightarrow>
             csv_row b ! 0 = CHR 0x22 # replace_quotes s @ [CHR 0x22]
             \<and> unescape_quotes (replace_quotes s) = Some s)
       \<and> (website b = Some s \<longrightarrow>
             csv_row b ! 4 = CHR 0x22 # replace_quotes s @ [CHR 0x22]
             \<and> unescape_quotes (replace_quotes s) = Some s)
       \<and> (phone b = Some s \<longrightarrow>
             csv_row b ! 5 = CHR 0x22 # replace_quotes s @ [CHR 0x22]
             \<and> unescape_quotes (replace_quotes s) = Some s)
       \<and> (address b = Some s \<longrightarrow>
             csv_row b ! 6 = CHR 0x22 # replace_quotes s @ [CHR 0x22]
             \<and> unescape_quotes (replace_quotes s) = Some s)
       \<and> CHR 0x22 \<notin> set (csv_row b ! 1) \<and> CHR 0x22 \<notin> set (csv_row b ! 2)
       \<and> CHR 0x22 \<notin> set (csv_row b ! 3)
       \<and> (lead_score b = Some x \<longrightarrow> csv_row b ! 1 = numToString x)
       \<and> (lead_score b = None \<longrightarrow> csv_row b ! 1 = ''0'')
       \<and> (rating b = Some x \<and> x \<noteq> 0 \<longrightarrow> csv_row b ! 2 = numToString x)
       \<and> (rating b = None \<or> rating b = Some 0 \<longrightarrow> csv_row b ! 2 = [])
       \<and> (review_count b = Some x \<and> x \<noteq> 0 \<longrightarrow> csv_row b ! 3 = numToString x)
       \<and> (review_count b = None \<or> review_count b = Some 0 \<longrightarrow> csv_row b ! 3 = [])
       \<and> (website b = None \<longrightarrow> csv_row b ! 4 = [CHR 0x22, CHR 0x22])
       \<and> (phone b = None \<longrightarrow> csv_row b ! 5 = [CHR 0x22, CHR 0x22])
       \<and> (address b = None \<longrightarrow> csv_row b ! 6 = [CHR 0x22, CHR 0x22])"
proof -
  have nl: "CHR 0x0A \<notin> set ''Name,Lead Score,Rating,Reviews,Website,Phone,Address''"
    by simp
  note content = exportCSV_content[OF assms]
  have line1: "first_line (the (exportCSV st)) = ''Name,Lead Score,Rating,Reviews,Website,Phone,Address''"
    unfolding content option.sel by (rule first_line_join[OF nl])
  have len: "length (csv_row b) = 7"
    by (simp add: csv_row_def)
  have wr: "wrapped_in_quotes (csv_row b ! 0) \<and> wrapped_in_quotes (csv_row b ! 4)
         \<and> wrapped_in_quotes (csv_row b ! 5) \<and> wrapped_in_quotes (csv_row b ! 6)"
    by (simp add: csv_row_def text_cell_wrapped)
  have f0: "name b = Some s \<longrightarrow>
           csv_row b ! 0 = CHR 0x22 # replace_quotes s @ [CHR 0x22]
           \<and> unescape_quotes (replace_quotes s) = Some s"
    using text_cell_reads_back[of s] by (simp add: csv_row_def)
  have f4: "website b = Some s \<longrightarrow>
           csv_row b ! 4 = CHR 0x22 # replace_quotes s @ [CHR 0x22]
           \<and> unescape_quotes (replace_quotes s) = Some s"
    using text_cell_reads_back[of s] by (simp add: csv_row_def)
  have f5: "phone b = Some s \<longrightarrow>
           csv_row b ! 5 = CHR 0x22 # replace_quotes s @ [CHR 0x22]
           \<and> unescape_quotes (replace_quotes s) = Some s"
    using text_cell_reads_back[of s] by (simp add: csv_row_def)
  have f6: "address b = Some s \<longrightarrow>
           csv_row b ! 6 = CHR 0x22 # replace_quotes s @ [CHR 0x22]
           \<and> unescape_quotes (replace_quotes s) = Some s"
    using text_cell_reads_back[of s] by (simp add: csv_row_def)
  have bare: "CHR 0x22 \<notin> set (csv_row b ! 1) \<and> CHR 0x22 \<notin> set (csv_row b ! 2)
         \<and> CHR 0x22 \<notin> set (csv_row b ! 3)"
    by (simp add: csv_row_def numToString_no_quote)
  have zero: "numToString 0 = ''0''"
    by (rule numToString_examples(1))
  have n1: "(lead_score b = Some x \<longrightarrow> csv_row b ! 1 = numToString x)
         \<and> (lead_score b = None \<longrightarrow> csv_row b ! 1 = ''0'')"
    by (auto simp: csv_row_def zero)
  have n2: "(rating b = Some x \<and> x \<noteq> 0 \<longrightarrow> csv_row b ! 2 = numToString x)
         \<and> (rating b = None \<or> rating b = Some 0 \<longrightarrow> csv_row b ! 2 = [])"
    by (auto simp: csv_row_def)
  have n3: "(review_count b = Some x \<and> x \<noteq> 0 \<longrightarrow> csv_row b ! 3 = numToString x)
         \<and> (review_count b = None \<or> review_count b = Some 0 \<longrightarrow> csv_row b ! 3 = [])"
    by (auto simp: csv_row_def)
  have missing: "(website b = None \<longrightarrow> csv_row b ! 4 = [CHR 0x22, CHR 0x22])
         \<and> (phone b = None \<longrightarrow> csv_row b ! 5 = [CHR 0x22, CHR 0x22])
         \<and> (address b = None \<longrightarrow> csv_row b ! 6 = [CHR 0x22, CHR 0x22])"
    by (simp add: csv_row_def text_cell_missing)
  from content line1 len wr f0 f4 f5 f6 bare n1 n2 n3 missing show ?thesis by blast
qed

theorem C3_csv_layout_witness:
  \<open>getFilteredBusinesses (searched_state three_businesses) \<noteq> []
   \<and> first_line (the (exportCSV (searched_state three_businesses)))
       = ''Name,Lead Score,Rating,Reviews,Website,Phone,Address''
   \<and> csv_row full_business ! 0 = ''"He said ""hi"""''
   \<and> unescape_quotes ''He said ""hi""'' = Some ''He said "hi"''
   \<and> csv_row full_business ! 1 = ''70''
   \<and> csv_row full_business ! 2 = ''4.5''
   \<and> csv_row full_business ! 3 = ''120''
   \<and> csv_row full_business ! 4 = ''"http://b.example"''
   \<and> csv_row full_business ! 5 = ''"555-0100"''
   \<and> csv_row full_business ! 6 = ''"1 Main St"''
   \<and> csv_row zero_rated_business ! 2 = []
   \<and> csv_row bare_business ! 1 = ''0''
   \<and> csv_row bare_business ! 2 = []
   \<and> csv_row bare_business ! 3 = []
   \<and> csv_row bare_business ! 4 = ''""''
   \<and> csv_row bare_business ! 5 = ''""''
   \<and> csv_row bare_business ! 6 = ''""''\<close>
proof -
  let ?st = "searched_state three_businesses"
  have h: "getFilteredBusinesses ?st \<noteq> []" by code_simp
  have n: \<open>name full_business = Some ''He said "hi"''\<close> by code_simp
  have w: "website full_business = Some ''http://b.example''" by code_simp
  have p: "phone full_business = Some ''555-0100''" by code_simp
  have a: "address full_business = Some ''1 Main St''" by code_simp
  have l: "lead_score full_business = Some 70" by code_simp
  have r: "rating full_business = Some (9 / 2) \<and> (9 / 2 :: rat) \<noteq> 0" by code_simp
  have c: "review_count full_business = Some 120 \<and> (120 :: rat) \<noteq> 0" by code_simp
  have rn: \<open>replace_quotes ''He said "hi"'' = ''He said ""hi""''\<close> by code_simp
  have rw: "replace_quotes ''http://b.example'' = ''http://b.example''" by code_simp
  have rp: "replace_quotes ''555-0100'' = ''555-0100''" by code_simp
  have ra: "replace_quotes ''1 Main St'' = ''1 Main St''" by code_simp
  have z: "rating zero_rated_business = Some 0" by code_simp
  have m: "rating bare_business = None \<and> review_count bare_business = None
      \<and> website bare_business = None \<and> phone bare_business = None
      \<and> address bare_business = None \<and> lead_score bare_business = None"
    by code_simp
  have s1: "numToString 70 = ''70''" by code_simp
  have s2: "numToString (9 / 2) = ''4.5''" by code_simp
  have s3: "numToString 120 = ''120''" by code_simp
  note main = C3_csv_layout[OF h]
  from main[of full_business] have line1:
    "first_line (the (exportCSV ?st)) = ''Name,Lead Score,Rating,Reviews,Website,Phone,Address''"
    by blast
  from main[of full_business \<open>''He said "hi"''\<close>] n rn
  have c0: \<open>csv_row full_business ! 0 = ''"He said ""hi"""''
      \<and> unescape_quotes ''He said ""hi""'' = Some ''He said "hi"''\<close>
    by simp
  from main[of full_business _ 70] l s1
  have c1: "csv_row full_business ! 1 = ''70''" by simp
  from main[of full_business _ "9 / 2"] r s2
  have c2: "csv_row full_business ! 2 = ''4.5''" by simp
  from main[of full_business _ 120] c s3
  have c3: "csv_row full_business ! 3 = ''120''" by simp
  from main[of full_business "''http://b.example''"] w rw
  have c4: \<open>csv_row full_business ! 4 = ''"http://b.example"''\<close> by simp
  from main[of full_business "''555-0100''"] p rp
  have c5: \<open>csv_row full_business ! 5 = ''"555-0100"''\<close> by simp
  from main[of full_business "''1 Main St''"] a ra
  have c6: \<open>csv_row full_business ! 6 = ''"1 Main St"''\<close> by simp
  from main[of zero_rated_business] z
  have cz: "csv_row zero_rated_business ! 2 = []" by simp
  from main[of bare_business] m
  have cm: \<open>csv_row bare_business ! 1 = ''0'' \<and> csv_row bare_business ! 2 = []
      \<and> csv_row bare_business ! 3 = [] \<and> csv_row bare_business ! 4 = ''""''
      \<and> csv_row bare_business ! 5 = ''""'' \<and> csv_row bare_business ! 6 = ''""''\<close>
    by simp
  from h line1 c0 c1 c2 c3 c4 c5 c6 cz cm show ?thesis by blast
qed

text \<open>
  Claim C10: when the stored result is not empty and the filters leave no business, the
  export still produces a file, and its content is the header line alone; the export is
  skipped exactly when the stored (unfiltered) result is empty.
\<close>

theorem C10_export_header_only:
  "(currentBusinesses st \<noteq> [] \<and> getFilteredBusinesses st = [] \<longrightarrow>
      exportCSV st = Some ''Name,Lead Score,Rating,Reviews,Website,Phone,Address'')
   \<and> (exportCSV st = None \<longleftrightarrow> currentBusinesses st = [])"
  by (simp add: exportCSV_def Let_def headers_def)

theorem C10_export_header_only_witness:
  "currentBusinesses (change_ratingFilter ''5'' (searched_state three_businesses)) \<noteq> []
   \<and> getFilteredBusinesses (change_ratingFilter ''5'' (searched_state three_businesses)) = []
   \<and> exportCSV (change_ratingFilter ''5'' (searched_state three_businesses))
       = Some ''Name,Lead Score,Rating,Reviews,Website,Phone,Address''
   \<and> exportCSV initial_state = None"
proof -
  let ?st = "change_ratingFilter ''5'' (searched_state three_businesses)"
  have h1: "currentBusinesses ?st \<noteq> []" by code_simp
  have h2: "getFilteredBusinesses ?st = []" by code_simp
  have h3: "currentBusinesses initial_state = []" by code_simp
  from C10_export_header_only[of ?st] C10_export_header_only[of initial_state] h1 h2 h3
  show ?thesis by simp
qed

end
